theory Spec2Isabelle
  imports Main
begin

section \<open>Python values, objects and the store\<close>

text \<open>
  The accelerator of \<^verbatim>\<open>pytorch_lightning/accelerators/accelerator.py\<close> holds a reference
  to a strategy object that other parts of the program hold too, and it writes into that
  object. The model therefore keeps all objects in one store, addressed by position, so that
  aliasing between the accelerator, the strategy and the precision plugin is visible.
\<close>

type_synonym addr = nat

datatype pyval = PyNone | PyStr string | PyInt int | Ref addr

datatype exn = NotImplementedError | AttributeError | TypeError | Raised pyval

record pyobj =
  cls :: string
  attrs :: "string \<Rightarrow> pyval option"

type_synonym heap = "pyobj list"

text \<open>
  A call either returns a value or raises; in both cases the store it leaves behind is part
  of the outcome, since Python does not undo assignments when an exception is raised.
\<close>

type_synonym outcome = "(exn + pyval) \<times> heap"

type_synonym pymethod = "pyval \<Rightarrow> pyval list \<Rightarrow> heap \<Rightarrow> outcome"

type_synonym class_table = "string \<Rightarrow> string \<Rightarrow> pymethod option"

text \<open>
  Modelled from the spec: the class \<^verbatim>\<open>TrainingTypePlugin\<close> (and \<^verbatim>\<open>PrecisionPlugin\<close>) is
  imported by the source file but is not part of it. The spec's data model describes the
  strategy as an object that holds its model reference, its root device and its precision
  strategy in slots of its own, and that offers \<^verbatim>\<open>setup_environment\<close>, \<^verbatim>\<open>setup\<close> and
  \<^verbatim>\<open>teardown\<close> as methods. Accordingly \<open>obj.name\<close> reads the slot \<open>name\<close> of the object,
  \<open>obj.name = v\<close> writes it, and a method call looks the method up in the table of the
  object's class. The bodies of the strategy's methods are a parameter (\<open>class_table\<close>).
  Reading or writing an attribute of \<^verbatim>\<open>None\<close>, of a string or of a number raises
  \<^verbatim>\<open>AttributeError\<close>, as does reading a slot that was never written.
\<close>

definition py_getattr :: "heap \<Rightarrow> pyval \<Rightarrow> string \<Rightarrow> exn + pyval" where
  "py_getattr h v n =
     (case v of
        Ref a \<Rightarrow>
          (if a < length h
           then (case attrs (h ! a) n of Some x \<Rightarrow> Inr x | None \<Rightarrow> Inl AttributeError)
           else Inl AttributeError)
      | _ \<Rightarrow> Inl AttributeError)"

definition py_setattr :: "heap \<Rightarrow> pyval \<Rightarrow> string \<Rightarrow> pyval \<Rightarrow> exn + heap" where
  "py_setattr h v n x =
     (case v of
        Ref a \<Rightarrow>
          (if a < length h
           then Inr (h[a := (h ! a)\<lparr>attrs := (attrs (h ! a))(n \<mapsto> x)\<rparr>])
           else Inl AttributeError)
      | _ \<Rightarrow> Inl AttributeError)"

definition py_call_method :: "class_table \<Rightarrow> heap \<Rightarrow> pyval \<Rightarrow> string \<Rightarrow> pyval list \<Rightarrow> outcome" where
  "py_call_method ct h v n args =
     (case v of
        Ref a \<Rightarrow>
          (if a < length h
           then (case ct (cls (h ! a)) n of
                   Some m \<Rightarrow> m v args h
                 | None \<Rightarrow> (Inl AttributeError, h))
           else (Inl AttributeError, h))
      | _ \<Rightarrow> (Inl AttributeError, h))"

text \<open>
  An expression statement drops the value of the call; a function body that ends without
  \<^verbatim>\<open>return\<close> yields \<^verbatim>\<open>None\<close>. An exception passes through as it is.
\<close>

definition return_none :: "outcome \<Rightarrow> outcome" where
  "return_none r = (case r of (Inl e, h) \<Rightarrow> (Inl e, h) | (Inr _, h) \<Rightarrow> (Inr PyNone, h))"

subsection \<open>Classes and instantiation\<close>

text \<open>
  \<^verbatim>\<open>object.__new__\<close> refuses to create an instance only when the class carries a non-empty
  set of abstract methods, and that set is computed by the metaclass \<^verbatim>\<open>ABCMeta\<close> alone.
  The decorator \<^verbatim>\<open>abstractmethod\<close> merely marks the function.
\<close>

record pyclass =
  cname :: string
  is_abc :: bool
  marked_abstract :: "string list"

definition py_new :: "pyclass \<Rightarrow> heap \<Rightarrow> (exn + addr) \<times> heap" where
  "py_new c h =
     (if is_abc c \<and> marked_abstract c \<noteq> []
      then (Inl TypeError, h)
      else (Inr (length h), h @ [\<lparr>cls = cname c, attrs = Map.empty\<rparr>]))"

section \<open>The class Accelerator\<close>

text \<open>
  \<^verbatim>\<open>class Accelerator:\<close> has no base class and no metaclass; \<^verbatim>\<open>auto_device_count\<close> is its
  only method marked with \<^verbatim>\<open>@abstractmethod\<close>.
\<close>

definition Accelerator_class :: pyclass where
  "Accelerator_class =
     \<lparr>cname = ''Accelerator'', is_abc = False, marked_abstract = [''auto_device_count'']\<rparr>"

text \<open>\<^verbatim>\<open>Accelerator.__init__(self, precision_plugin, training_type_plugin)\<close>.\<close>

definition Accelerator_init :: "addr \<Rightarrow> pyval \<Rightarrow> pyval \<Rightarrow> heap \<Rightarrow> outcome" where
  "Accelerator_init self precision_plugin training_type_plugin h =
     (case py_setattr h (Ref self) ''training_type_plugin'' training_type_plugin of
        Inl e \<Rightarrow> (Inl e, h)
      | Inr h1 \<Rightarrow>
          (if precision_plugin \<noteq> PyNone
           then (case py_getattr h1 (Ref self) ''training_type_plugin'' of
                   Inl e \<Rightarrow> (Inl e, h1)
                 | Inr tp \<Rightarrow>
                     (case py_setattr h1 tp ''_precision_plugin'' precision_plugin of
                        Inl e \<Rightarrow> (Inl e, h1)
                      | Inr h2 \<Rightarrow> (Inr PyNone, h2)))
           else (Inr PyNone, h1)))"

text \<open>
  The constructor call \<^verbatim>\<open>Accelerator(precision_plugin, training_type_plugin)\<close>: a new object
  is created, \<^verbatim>\<open>__init__\<close> runs on it, and the call yields the reference to the object.
\<close>

definition Accelerator_new :: "pyval \<Rightarrow> pyval \<Rightarrow> heap \<Rightarrow> outcome" where
  "Accelerator_new precision_plugin training_type_plugin h =
     (case py_new Accelerator_class h of
        (Inl e, h0) \<Rightarrow> (Inl e, h0)
      | (Inr self, h0) \<Rightarrow>
          (case Accelerator_init self precision_plugin training_type_plugin h0 of
             (Inl e, h1) \<Rightarrow> (Inl e, h1)
           | (Inr _, h1) \<Rightarrow> (Inr (Ref self), h1)))"

definition setup_environment :: "class_table \<Rightarrow> addr \<Rightarrow> heap \<Rightarrow> outcome" where
  "setup_environment ct self h =
     (case py_getattr h (Ref self) ''training_type_plugin'' of
        Inl e \<Rightarrow> (Inl e, h)
      | Inr tp \<Rightarrow> return_none (py_call_method ct h tp ''setup_environment'' []))"

text \<open>\<^verbatim>\<open>Accelerator.setup(self, trainer)\<close>.\<close>

definition setup_trainer :: "class_table \<Rightarrow> addr \<Rightarrow> pyval \<Rightarrow> heap \<Rightarrow> outcome" where
  "setup_trainer ct self trainer h =
     (case py_getattr h (Ref self) ''training_type_plugin'' of
        Inl e \<Rightarrow> (Inl e, h)
      | Inr tp \<Rightarrow> return_none (py_call_method ct h tp ''setup'' [trainer]))"

text \<open>The property \<^verbatim>\<open>model\<close>: its getter and its setter.\<close>

definition model :: "addr \<Rightarrow> heap \<Rightarrow> outcome" where
  "model self h =
     (case py_getattr h (Ref self) ''training_type_plugin'' of
        Inl e \<Rightarrow> (Inl e, h)
      | Inr tp \<Rightarrow>
          (case py_getattr h tp ''model'' of
             Inl e \<Rightarrow> (Inl e, h)
           | Inr v \<Rightarrow> (Inr v, h)))"

definition model_setter :: "addr \<Rightarrow> pyval \<Rightarrow> heap \<Rightarrow> outcome" where
  "model_setter self new_model h =
     (case py_getattr h (Ref self) ''training_type_plugin'' of
        Inl e \<Rightarrow> (Inl e, h)
      | Inr tp \<Rightarrow>
          (case py_setattr h tp ''model'' new_model of
             Inl e \<Rightarrow> (Inl e, h)
           | Inr h1 \<Rightarrow> (Inr PyNone, h1)))"

definition lightning_module :: "addr \<Rightarrow> heap \<Rightarrow> outcome" where
  "lightning_module self h =
     (case py_getattr h (Ref self) ''training_type_plugin'' of
        Inl e \<Rightarrow> (Inl e, h)
      | Inr tp \<Rightarrow>
          (case py_getattr h tp ''lightning_module'' of
             Inl e \<Rightarrow> (Inl e, h)
           | Inr v \<Rightarrow> (Inr v, h)))"

definition root_device :: "addr \<Rightarrow> heap \<Rightarrow> outcome" where
  "root_device self h =
     (case py_getattr h (Ref self) ''training_type_plugin'' of
        Inl e \<Rightarrow> (Inl e, h)
      | Inr tp \<Rightarrow>
          (case py_getattr h tp ''root_device'' of
             Inl e \<Rightarrow> (Inl e, h)
           | Inr v \<Rightarrow> (Inr v, h)))"

definition teardown :: "class_table \<Rightarrow> addr \<Rightarrow> heap \<Rightarrow> outcome" where
  "teardown ct self h =
     (case py_getattr h (Ref self) ''training_type_plugin'' of
        Inl e \<Rightarrow> (Inl e, h)
      | Inr tp \<Rightarrow> return_none (py_call_method ct h tp ''teardown'' []))"

definition get_device_stats :: "addr \<Rightarrow> pyval \<Rightarrow> heap \<Rightarrow> outcome" where
  "get_device_stats self device h = (Inl NotImplementedError, h)"

text \<open>
  \<^verbatim>\<open>auto_device_count\<close> is a static method whose body is its docstring only, so a call runs
  off the end of the body.
\<close>

definition auto_device_count :: "heap \<Rightarrow> outcome" where
  "auto_device_count h = (Inr PyNone, h)"


section \<open>Callers of an accelerator\<close>

text \<open>
  The calls a trainer can make on an accelerator instance, and a trainer that makes any
  sequence of them, going on after a call that raised (as a caller that catches the
  exception does).
\<close>

datatype facade_call =
    SetupEnvironment
  | Setup pyval
  | GetModel
  | SetModel pyval
  | GetLightningModule
  | GetRootDevice
  | Teardown
  | GetDeviceStats pyval

fun call :: "class_table \<Rightarrow> addr \<Rightarrow> facade_call \<Rightarrow> heap \<Rightarrow> outcome" where
  "call ct self SetupEnvironment h = setup_environment ct self h"
| "call ct self (Setup trainer) h = setup_trainer ct self trainer h"
| "call ct self GetModel h = model self h"
| "call ct self (SetModel new_model) h = model_setter self new_model h"
| "call ct self GetLightningModule h = lightning_module self h"
| "call ct self GetRootDevice h = root_device self h"
| "call ct self Teardown h = teardown ct self h"
| "call ct self (GetDeviceStats device) h = get_device_stats self device h"

fun calls :: "class_table \<Rightarrow> addr \<Rightarrow> facade_call list \<Rightarrow> heap \<Rightarrow> heap" where
  "calls ct self [] h = h"
| "calls ct self (c # cs) h = calls ct self cs (snd (call ct self c h))"

subsection \<open>A fake strategy, for concrete runs\<close>

text \<open>
  A strategy class whose \<^verbatim>\<open>setup_environment\<close> and \<^verbatim>\<open>teardown\<close> flip a flag on the strategy
  and whose \<^verbatim>\<open>setup\<close> raises. The store \<open>fake_heap\<close> holds one such strategy, with model
  \<^verbatim>\<open>A\<close> and an earlier precision plugin, and a precision plugin object.
\<close>

definition fake_setup_environment :: pymethod where
  "fake_setup_environment recv args h =
     (case py_setattr h recv ''environment_ready'' (PyInt 1) of
        Inl e \<Rightarrow> (Inl e, h)
      | Inr h1 \<Rightarrow> (Inr (PyInt 1), h1))"

definition fake_setup :: pymethod where
  "fake_setup recv args h = (Inl (Raised (PyStr ''no devices'')), h)"

definition fake_teardown :: pymethod where
  "fake_teardown recv args h =
     (case py_setattr h recv ''environment_ready'' (PyInt 0) of
        Inl e \<Rightarrow> (Inl e, h)
      | Inr h1 \<Rightarrow> (Inr PyNone, h1))"

definition fake_table :: class_table where
  "fake_table c n =
     (if c = ''FakeStrategy'' then
        (if n = ''setup_environment'' then Some fake_setup_environment
         else if n = ''setup'' then Some fake_setup
         else if n = ''teardown'' then Some fake_teardown
         else None)
      else None)"

definition fake_heap :: heap where
  "fake_heap =
     [\<lparr>cls = ''FakeStrategy'',
       attrs = [''model'' \<mapsto> PyStr ''A'', ''_precision_plugin'' \<mapsto> PyStr ''old'']\<rparr>,
      \<lparr>cls = ''PrecisionPlugin'', attrs = Map.empty\<rparr>]"

section \<open>Store lemmas\<close>

lemma py_setattr_length: "py_setattr h v n x = Inr h' \<Longrightarrow> length h' = length h"
  by (auto simp: py_setattr_def split: pyval.splits if_splits)

lemma py_getattr_setattr_same:
  "py_setattr h v n x = Inr h' \<Longrightarrow> py_getattr h' v n = Inr x"
  by (auto simp: py_setattr_def py_getattr_def split: pyval.splits if_splits)

lemma py_getattr_setattr_other:
  "py_setattr h v n x = Inr h' \<Longrightarrow> v \<noteq> w \<or> n \<noteq> m \<Longrightarrow> py_getattr h' w m = py_getattr h w m"
  by (auto simp: py_setattr_def py_getattr_def nth_list_update split: pyval.splits if_splits)

lemma py_new_Accelerator:
  "py_new Accelerator_class h =
     (Inr (length h), h @ [\<lparr>cls = ''Accelerator'', attrs = Map.empty\<rparr>])"
  by (simp add: py_new_def Accelerator_class_def)

text \<open>Had the class been given the metaclass, creating an instance would be refused.\<close>

lemma py_new_refused_under_ABCMeta:
  "py_new (Accelerator_class\<lparr>is_abc := True\<rparr>) h = (Inl TypeError, h)"
  by (simp add: py_new_def Accelerator_class_def)

lemma Accelerator_new_live:
  assumes "s < length h" "p \<noteq> PyNone"
  shows "Accelerator_new p (Ref s) h =
     (Inr (Ref (length h)),
      (h @ [\<lparr>cls = ''Accelerator'', attrs = [''training_type_plugin'' \<mapsto> Ref s]\<rparr>])
        [s := (h ! s)\<lparr>attrs := (attrs (h ! s))(''_precision_plugin'' \<mapsto> p)\<rparr>])"
  using assms
  by (simp add: Accelerator_new_def py_new_Accelerator Accelerator_init_def py_setattr_def
      py_getattr_def nth_append)

lemma Accelerator_new_None:
  "Accelerator_new PyNone tp h =
     (Inr (Ref (length h)),
      h @ [\<lparr>cls = ''Accelerator'', attrs = [''training_type_plugin'' \<mapsto> tp]\<rparr>])"
  by (simp add: Accelerator_new_def py_new_Accelerator Accelerator_init_def py_setattr_def)

lemma fake_heap_length: "length fake_heap = 2"
  by (simp add: fake_heap_def)

lemma return_none_snd: "snd (return_none r) = snd r"
  by (auto simp: return_none_def split: prod.splits sum.splits)

lemma py_call_method_frame:
  assumes "\<And>c n m recv args h0. ct c n = Some m \<Longrightarrow>
             py_getattr (snd (m recv args h0)) w k = py_getattr h0 w k"
  shows "py_getattr (snd (py_call_method ct h v n args)) w k = py_getattr h w k"
  using assms
  by (auto simp: py_call_method_def split: pyval.splits option.splits)

lemma call_keeps_reference:
  assumes frame: "\<And>c n m recv args h0. ct c n = Some m \<Longrightarrow>
             py_getattr (snd (m recv args h0)) (Ref a) ''training_type_plugin'' =
             py_getattr h0 (Ref a) ''training_type_plugin''"
  shows "py_getattr (snd (call ct a c h)) (Ref a) ''training_type_plugin'' =
         py_getattr h (Ref a) ''training_type_plugin''"
proof -
  have forwarded: "py_getattr (snd (py_call_method ct h v n args)) (Ref a) ''training_type_plugin'' =
      py_getattr h (Ref a) ''training_type_plugin''" for v n args
    by (rule py_call_method_frame) (erule frame)
  show ?thesis
  proof (cases c)
    case SetupEnvironment
    then show ?thesis
      by (simp add: setup_environment_def return_none_snd forwarded split: sum.splits)
  next
    case (Setup trainer)
    then show ?thesis
      by (simp add: setup_trainer_def return_none_snd forwarded split: sum.splits)
  next
    case GetModel
    then show ?thesis by (simp add: model_def split: sum.splits)
  next
    case (SetModel new_model)
    have "py_getattr h1 (Ref a) ''training_type_plugin'' =
        py_getattr h (Ref a) ''training_type_plugin''"
      if "py_setattr h tp ''model'' new_model = Inr h1" for tp h1
      using py_getattr_setattr_other [OF that, of "Ref a" "''training_type_plugin''"] by simp
    with SetModel show ?thesis
      by (simp add: model_setter_def split: sum.splits)
  next
    case GetLightningModule
    then show ?thesis by (simp add: lightning_module_def split: sum.splits)
  next
    case GetRootDevice
    then show ?thesis by (simp add: root_device_def split: sum.splits)
  next
    case Teardown
    then show ?thesis
      by (simp add: teardown_def return_none_snd forwarded split: sum.splits)
  next
    case (GetDeviceStats device)
    then show ?thesis by (simp add: get_device_stats_def)
  qed
qed

lemma calls_keep_reference:
  assumes frame: "\<And>c n m recv args h0. ct c n = Some m \<Longrightarrow>
             py_getattr (snd (m recv args h0)) (Ref a) ''training_type_plugin'' =
             py_getattr h0 (Ref a) ''training_type_plugin''"
  shows "py_getattr (calls ct a cs h) (Ref a) ''training_type_plugin'' =
         py_getattr h (Ref a) ''training_type_plugin''"
proof (induction cs arbitrary: h)
  case Nil
  show ?case by simp
next
  case (Cons c cs)
  have "py_getattr (snd (call ct a c h)) (Ref a) ''training_type_plugin'' =
      py_getattr h (Ref a) ''training_type_plugin''"
    by (rule call_keeps_reference) (erule frame)
  then show ?case by (simp add: Cons.IH)
qed

lemma Accelerator_new_sets_reference:
  assumes "Accelerator_new p t h = (Inr (Ref a), h1)"
  shows "py_getattr h1 (Ref a) ''training_type_plugin'' = Inr t"
proof (cases "p = PyNone")
  case True
  with assms show ?thesis
    by (auto simp: Accelerator_new_None py_getattr_def)
next
  case False
  let ?h0 = "h @ [\<lparr>cls = ''Accelerator'', attrs = Map.empty\<rparr>]"
  obtain h' where w1: "py_setattr ?h0 (Ref (length h)) ''training_type_plugin'' t = Inr h'"
    by (simp add: py_setattr_def)
  have r1: "py_getattr h' (Ref (length h)) ''training_type_plugin'' = Inr t"
    by (rule py_getattr_setattr_same [OF w1])
  show ?thesis
  proof (cases "py_setattr h' t ''_precision_plugin'' p")
    case (Inl e)
    with assms False w1 r1 show ?thesis
      by (simp add: Accelerator_new_def py_new_Accelerator Accelerator_init_def)
  next
    case (Inr h2)
    have "py_getattr h2 (Ref (length h)) ''training_type_plugin'' = Inr t"
      using py_getattr_setattr_other [OF Inr, of "Ref (length h)" "''training_type_plugin''"] r1
      by simp
    with assms False w1 r1 Inr show ?thesis
      by (auto simp: Accelerator_new_def py_new_Accelerator Accelerator_init_def)
  qed
qed

lemma py_getattr_setattr_other_name:
  "py_setattr h v n x = Inr h' \<Longrightarrow> n \<noteq> m \<Longrightarrow> py_getattr h' w m = py_getattr h w m"
  using py_getattr_setattr_other [of h v n x h' w m] by simp

lemma fake_setup_environment_frame:
  "py_getattr (snd (fake_setup_environment recv args h0)) w ''training_type_plugin'' =
     py_getattr h0 w ''training_type_plugin''"
proof (cases "py_setattr h0 recv ''environment_ready'' (PyInt 1)")
  case (Inl e)
  then show ?thesis by (simp add: fake_setup_environment_def)
next
  case (Inr h1)
  then show ?thesis
    using py_getattr_setattr_other_name [OF Inr, of "''training_type_plugin''" w]
    by (simp add: fake_setup_environment_def)
qed

lemma fake_teardown_frame:
  "py_getattr (snd (fake_teardown recv args h0)) w ''training_type_plugin'' =
     py_getattr h0 w ''training_type_plugin''"
proof (cases "py_setattr h0 recv ''environment_ready'' (PyInt 0)")
  case (Inl e)
  then show ?thesis by (simp add: fake_teardown_def)
next
  case (Inr h1)
  then show ?thesis
    using py_getattr_setattr_other_name [OF Inr, of "''training_type_plugin''" w]
    by (simp add: fake_teardown_def)
qed

lemma fake_table_frame:
  "fake_table c n = Some m \<Longrightarrow>
     py_getattr (snd (m recv args h0)) w ''training_type_plugin'' =
     py_getattr h0 w ''training_type_plugin''"
  by (auto simp: fake_table_def fake_setup_environment_frame fake_teardown_frame fake_setup_def
      split: if_splits)

section \<open>Construction\<close>

text \<open>
  C1. A constructor call with a precision plugin other than \<^verbatim>\<open>None\<close> and a strategy that is
  an object of the store succeeds, and afterwards the strategy's slot \<^verbatim>\<open>_precision_plugin\<close>
  holds exactly the plugin that was passed, whatever the slot held before (the store \<open>h\<close>
  is arbitrary).
\<close>

theorem init_overwrites_precision_slot:
  assumes "precision_plugin \<noteq> PyNone" and "s < length h"
  shows "\<exists>a h'. Accelerator_new precision_plugin (Ref s) h = (Inr (Ref a), h') \<and>
           py_getattr h' (Ref s) ''_precision_plugin'' = Inr precision_plugin"
  using assms by (simp add: Accelerator_new_live py_getattr_def nth_list_update nth_append)

theorem init_overwrites_precision_slot_witness:
  "Ref 1 \<noteq> PyNone \<and> 0 < length fake_heap \<and>
   py_getattr fake_heap (Ref 0) ''_precision_plugin'' = Inr (PyStr ''old'') \<and>
   (\<exists>a h'. Accelerator_new (Ref 1) (Ref 0) fake_heap = (Inr (Ref a), h') \<and>
      py_getattr h' (Ref 0) ''_precision_plugin'' = Inr (Ref 1))"
  using init_overwrites_precision_slot [of "Ref 1" 0 fake_heap]
  by (simp add: fake_heap_def py_getattr_def)

text \<open>
  C2. A constructor call with \<^verbatim>\<open>None\<close> as precision plugin leaves the precision slot of the
  strategy as it was: reading it after the call gives what reading it before gave.
\<close>

theorem init_None_keeps_precision_slot:
  "py_getattr (snd (Accelerator_new PyNone tp h)) tp ''_precision_plugin'' =
     py_getattr h tp ''_precision_plugin''"
  by (cases tp) (auto simp add: Accelerator_new_None py_getattr_def nth_append)

theorem init_None_keeps_precision_slot_witness:
  "py_getattr fake_heap (Ref 0) ''_precision_plugin'' = Inr (PyStr ''old'') \<and>
   py_getattr (snd (Accelerator_new PyNone (Ref 0) fake_heap)) (Ref 0) ''_precision_plugin''
     = Inr (PyStr ''old'')"
  using init_None_keeps_precision_slot [of "Ref 0" fake_heap]
  by (simp add: fake_heap_def py_getattr_def)



text \<open>
  C6. The spec asks for a check that rejects \<^verbatim>\<open>None\<close> as strategy. The constructor has none.
  With \<^verbatim>\<open>None\<close> for both arguments it returns a new accelerator whose strategy reference is
  \<^verbatim>\<open>None\<close>:
\<close>

theorem init_accepts_None_strategy_counterexample:
  "fst (Accelerator_new PyNone PyNone []) = Inr (Ref 0) \<and>
   py_getattr (snd (Accelerator_new PyNone PyNone [])) (Ref 0) ''training_type_plugin''
     = Inr PyNone"
  by (simp add: Accelerator_new_None py_getattr_def)

text \<open>
  C6, as the code has it. The constructor does not check its strategy argument. With
  \<^verbatim>\<open>None\<close> as strategy and \<^verbatim>\<open>None\<close> as precision plugin it returns normally and stores
  \<^verbatim>\<open>None\<close> as the strategy reference, in every store. With \<^verbatim>\<open>None\<close> as strategy and any other
  precision plugin the assignment to the strategy's \<^verbatim>\<open>_precision_plugin\<close> raises
  \<^verbatim>\<open>AttributeError\<close>.
\<close>

theorem init_None_strategy:
  "fst (Accelerator_new PyNone PyNone h) = Inr (Ref (length h)) \<and>
   py_getattr (snd (Accelerator_new PyNone PyNone h)) (Ref (length h)) ''training_type_plugin''
     = Inr PyNone \<and>
   (precision_plugin \<noteq> PyNone \<longrightarrow>
      fst (Accelerator_new precision_plugin PyNone h) = Inl AttributeError)"
  by (simp add: Accelerator_new_None py_getattr_def Accelerator_new_def py_new_Accelerator
      Accelerator_init_def py_setattr_def)

theorem init_None_strategy_witness:
  "Ref 1 \<noteq> PyNone \<and> fst (Accelerator_new (Ref 1) PyNone fake_heap) = Inl AttributeError"
  using init_None_strategy [of fake_heap "Ref 1"] by simp



section \<open>The model property\<close>



section \<open>Lifecycle calls\<close>

text \<open>
  C4. On an accelerator whose strategy is an object of the store, in any store (so in any
  phase, and whatever was called before), \<^verbatim>\<open>setup_environment\<close>, \<^verbatim>\<open>setup\<close> and
  \<^verbatim>\<open>teardown\<close> each run the strategy's method of the same name on the strategy, with the
  same arguments and in the same store. If the method raises, the accelerator's call raises
  the same exception and leaves the store the method left; if it returns, the accelerator's
  call returns \<^verbatim>\<open>None\<close> with the store the method left.
\<close>

theorem lifecycle_calls_forward:
  assumes "py_getattr h (Ref self) ''training_type_plugin'' = Inr (Ref s)" and "s < length h"
  shows "(ct (cls (h ! s)) ''setup_environment'' = Some m1 \<longrightarrow>
            setup_environment ct self h =
              (case m1 (Ref s) [] h of (Inl e, h') \<Rightarrow> (Inl e, h') | (Inr r, h') \<Rightarrow> (Inr PyNone, h'))) \<and>
         (ct (cls (h ! s)) ''setup'' = Some m2 \<longrightarrow>
            setup_trainer ct self trainer h =
              (case m2 (Ref s) [trainer] h of (Inl e, h') \<Rightarrow> (Inl e, h') | (Inr r, h') \<Rightarrow> (Inr PyNone, h'))) \<and>
         (ct (cls (h ! s)) ''teardown'' = Some m3 \<longrightarrow>
            teardown ct self h =
              (case m3 (Ref s) [] h of (Inl e, h') \<Rightarrow> (Inl e, h') | (Inr r, h') \<Rightarrow> (Inr PyNone, h')))"
  using assms
  by (simp add: setup_environment_def setup_trainer_def teardown_def py_call_method_def
      return_none_def)

theorem lifecycle_calls_forward_witness:
  "setup_trainer fake_table 2 (PyStr ''trainer'') (snd (Accelerator_new PyNone (Ref 0) fake_heap))
     = (Inl (Raised (PyStr ''no devices'')), snd (Accelerator_new PyNone (Ref 0) fake_heap)) \<and>
   fst (setup_environment fake_table 2 (snd (Accelerator_new PyNone (Ref 0) fake_heap)))
     = Inr PyNone \<and>
   py_getattr (snd (setup_environment fake_table 2 (snd (Accelerator_new PyNone (Ref 0) fake_heap))))
     (Ref 0) ''environment_ready'' = Inr (PyInt 1)"
  using lifecycle_calls_forward
    [of "snd (Accelerator_new PyNone (Ref 0) fake_heap)" 2 0 fake_table
        fake_setup_environment fake_setup "PyStr ''trainer''" fake_teardown]
  by (simp add: Accelerator_new_None fake_heap_def py_getattr_def fake_table_def
      fake_setup_def fake_setup_environment_def py_setattr_def)

section \<open>Unimplemented capabilities\<close>

text \<open>
  C5. On the base class, \<^verbatim>\<open>get_device_stats\<close> raises \<^verbatim>\<open>NotImplementedError\<close> for every
  instance, every device argument and every store, and leaves the store as it was; it never
  returns a value.
\<close>

theorem get_device_stats_raises:
  "get_device_stats self device h = (Inl NotImplementedError, h)"
  by (simp add: get_device_stats_def)

text \<open>
  C7. The spec asks that \<^verbatim>\<open>auto_device_count\<close> on the base class fail instead of yielding a
  value. The code marks it with \<^verbatim>\<open>@abstractmethod\<close> and annotates the result as \<^verbatim>\<open>int\<close>, but
  the mark has no effect without the metaclass, and the body is a docstring: the call
  returns \<^verbatim>\<open>None\<close> and raises nothing.
\<close>

theorem auto_device_count_returns_None:
  "auto_device_count h = (Inr PyNone, h)"
  by (simp add: auto_device_count_def)

section \<open>The strategy reference\<close>

text \<open>
  C8. The constructor call stores the strategy it was given in the accelerator's attribute
  \<^verbatim>\<open>training_type_plugin\<close>, and after any sequence of calls of \<^verbatim>\<open>setup_environment\<close>,
  \<^verbatim>\<open>setup\<close>, the \<^verbatim>\<open>model\<close> getter and setter, \<^verbatim>\<open>lightning_module\<close>, \<^verbatim>\<open>root_device\<close>,
  \<^verbatim>\<open>teardown\<close> and \<^verbatim>\<open>get_device_stats\<close> on that accelerator, whether they return or raise,
  the attribute still holds that same value. The accelerator's own code never writes it
  again; the bodies of the strategy's methods are not the accelerator's code, and are taken
  not to write the accelerator's attribute themselves.
\<close>

theorem strategy_reference_fixed:
  assumes frame: "\<And>c n m recv args h0. ct c n = Some m \<Longrightarrow>
             py_getattr (snd (m recv args h0)) (Ref a) ''training_type_plugin'' =
             py_getattr h0 (Ref a) ''training_type_plugin''"
    and new: "Accelerator_new p t h = (Inr (Ref a), h1)"
  shows "py_getattr h1 (Ref a) ''training_type_plugin'' = Inr t \<and>
         py_getattr (calls ct a cs h1) (Ref a) ''training_type_plugin'' = Inr t"
proof -
  have "py_getattr (calls ct a cs h1) (Ref a) ''training_type_plugin'' =
      py_getattr h1 (Ref a) ''training_type_plugin''"
    by (rule calls_keep_reference) (erule frame)
  then show ?thesis
    using Accelerator_new_sets_reference [OF new] by simp
qed

theorem strategy_reference_fixed_witness:
  "fst (Accelerator_new (Ref 1) (Ref 0) fake_heap) = Inr (Ref 2) \<and>
   py_getattr
     (calls fake_table 2
        [Setup (PyStr ''trainer''), SetupEnvironment, SetModel (PyStr ''B''), GetModel,
         Teardown, GetDeviceStats (PyStr ''cpu'')]
        (snd (Accelerator_new (Ref 1) (Ref 0) fake_heap)))
     (Ref 2) ''training_type_plugin'' = Inr (Ref 0)"
proof -
  let ?h1 = "snd (Accelerator_new (Ref 1) (Ref 0) fake_heap)"
  let ?cs = "[Setup (PyStr ''trainer''), SetupEnvironment, SetModel (PyStr ''B''), GetModel,
         Teardown, GetDeviceStats (PyStr ''cpu'')]"
  have new: "Accelerator_new (Ref 1) (Ref 0) fake_heap = (Inr (Ref 2), ?h1)"
    by (simp add: Accelerator_new_live fake_heap_length)
  have "py_getattr ?h1 (Ref 2) ''training_type_plugin'' = Inr (Ref 0) \<and>
      py_getattr (calls fake_table 2 ?cs ?h1) (Ref 2) ''training_type_plugin'' = Inr (Ref 0)"
  proof (rule strategy_reference_fixed)
    show "Accelerator_new (Ref 1) (Ref 0) fake_heap = (Inr (Ref 2), ?h1)"
      by (rule new)
  next
    fix c n m recv args h0
    assume "fake_table c n = Some m"
    then show "py_getattr (snd (m recv args h0)) (Ref 2) ''training_type_plugin'' =
        py_getattr h0 (Ref 2) ''training_type_plugin''"
      by (rule fake_table_frame)
  qed
  then have "py_getattr (calls fake_table 2 ?cs ?h1) (Ref 2) ''training_type_plugin'' = Inr (Ref 0)"
    by (rule conjunct2)
  moreover have "fst (Accelerator_new (Ref 1) (Ref 0) fake_heap) = Inr (Ref 2)"
    by (simp add: Accelerator_new_live fake_heap_length)
  ultimately show ?thesis by simp
qed

end
